theory Spec2Isabelle
  imports Complex_Main
begin

section \<open>Transfer-matrix engine of pistachio (transfer\_matrix\_method.py)\<close>

text \<open>
  The embedding follows \<^verbatim>\<open>src/transfer_matrix_method.py\<close>. Python floats are read as
  \<^typ>\<open>real\<close> and Python/numpy complex numbers as \<^typ>\<open>complex\<close>: arithmetic is exact, so
  rounding, overflow and NaN are outside the model. Every exception the modelled code can
  raise is a value of \<open>error\<close>, returned as \<open>Inl\<close>.
\<close>

subsection \<open>Errors and library constants\<close>

datatype error = ZeroDivisionError | LinAlgError | IndexError | ValueError | NameError

text \<open>
  \<^verbatim>\<open>c = sc.c\<close>, \<^verbatim>\<open>h = sc.h\<close> and \<^verbatim>\<open>sc.eV\<close> are the values of scipy.constants (speed of
  light, Planck constant, elementary charge; the SI-2019 exact values). Only their being
  nonzero is used below.
\<close>

definition c :: real where
  "c = 299792458"

definition h :: real where
  "h = 662607015 / 10 ^ 42"

definition eV :: real where
  "eV = 1602176634 / 10 ^ 28"

subsection \<open>2 x 2 complex matrices (numpy.matrix) and numpy.linalg\<close>

datatype matrix = Matrix (item00: complex) (item01: complex) (item10: complex) (item11: complex)

definition identity :: matrix where
  "identity = Matrix 1 0 0 1"

definition dot :: "matrix \<Rightarrow> matrix \<Rightarrow> matrix" where
  "dot A B = Matrix
     (item00 A * item00 B + item01 A * item10 B) (item00 A * item01 B + item01 A * item11 B)
     (item10 A * item00 B + item11 A * item10 B) (item10 A * item01 B + item11 A * item11 B)"

text \<open>\<^verbatim>\<open>np.linalg.det\<close>: the determinant, a complex number for a complex matrix.\<close>

definition linalg_det :: "matrix \<Rightarrow> complex" where
  "linalg_det A = item00 A * item11 A - item01 A * item10 A"

text \<open>\<^verbatim>\<open>np.linalg.inv\<close>: raises LinAlgError on a singular matrix.\<close>

definition linalg_inv :: "matrix \<Rightarrow> error + matrix" where
  "linalg_inv A =
     (if linalg_det A = 0 then Inl LinAlgError
      else Inr (Matrix (item11 A / linalg_det A) (- item01 A / linalg_det A)
                       (- item10 A / linalg_det A) (item00 A / linalg_det A)))"

text \<open>
  \<^verbatim>\<open>np.linalg.multi_dot\<close>: the product of the arrays in list order; it raises ValueError
  when given fewer than two arrays.
\<close>

fun multi_dot :: "matrix list \<Rightarrow> error + matrix" where
  "multi_dot (A # B # rest) = Inr (foldl dot (dot A B) rest)"
| "multi_dot _ = Inl ValueError"

subsection \<open>class Light\<close>

record Light =
  wavelength_ :: real
  omega :: real
  freq :: real
  k :: real
  energy_J :: real
  energy_ev :: real

text \<open>
  \<^verbatim>\<open>Light.__init__\<close> has no check of its argument. Its first statement that divides is
  \<^verbatim>\<open>2*np.pi*c / wavelength\<close>, a division of Python floats, which raises ZeroDivisionError
  when the wavelength is zero.
\<close>

definition Light_init :: "real \<Rightarrow> error + Light" where
  "Light_init wavelength =
     (if wavelength = 0 then Inl ZeroDivisionError
      else Inr \<lparr> wavelength_ = wavelength,
                 omega = 2 * pi * c / wavelength,
                 freq = c / wavelength,
                 k = 2 * pi / wavelength,
                 energy_J = h * c / wavelength,
                 energy_ev = (h * c / wavelength) / eV \<rparr>)"

subsection \<open>class Layer\<close>

text \<open>
  The fields of \<^verbatim>\<open>Layer\<close> that the matrix computations read. (\<^verbatim>\<open>self.complex\<close>, scratch
  storage written by \<^verbatim>\<open>complex_index\<close> only, is read nowhere.)
\<close>

record Layer =
  material :: string
  thickness :: real
  wavelength :: "real list"
  index :: "real list"
  extinct :: "real list"

text \<open>\<^verbatim>\<open>Layer.wavenumber(n, omega, theta=0)\<close>; \<^verbatim>\<open>self\<close> is not used.\<close>

definition wavenumber :: "complex \<Rightarrow> real \<Rightarrow> real \<Rightarrow> complex \<times> complex" where
  "wavenumber n omega' theta =
     (let k_x = n * of_real omega' / of_real c * of_real (cos theta);
          k_z = n * of_real omega' / of_real c * of_real (sin theta)
      in (k_x, k_z))"

definition propagation_matrix :: "Layer \<Rightarrow> complex \<Rightarrow> matrix" where
  "propagation_matrix self wavenumber' =
     (let phi = wavenumber' * of_real (thickness self);
          P_i = Matrix (exp (- \<i> * phi)) 0 0 (exp (\<i> * phi))
      in P_i)"

text \<open>\<^verbatim>\<open>Layer.dynamical_matrix(n_, theta=0.)\<close> returns \<open>(Ds, Dp)\<close>; \<^verbatim>\<open>self\<close> is not used.\<close>

definition dynamical_matrix :: "complex \<Rightarrow> real \<Rightarrow> matrix \<times> matrix" where
  "dynamical_matrix n' theta =
     (let m = n' * of_real (cos theta);
          Ds = Matrix 1 1 m (- m);
          Dp = Matrix (of_real (cos theta)) (of_real (cos theta)) n' (- n')
      in (Ds, Dp))"

subsection \<open>Module functions\<close>

definition multilayer_matrix :: "matrix list \<Rightarrow> error + matrix" where
  "multilayer_matrix array = multi_dot array"

definition inverse_matrix :: "matrix \<Rightarrow> error + matrix" where
  "inverse_matrix M = linalg_inv M"

text \<open>
  \<^verbatim>\<open>M_.item(...)\<close> yields a Python scalar, so \<^verbatim>\<open>M21 / M11\<close> and \<^verbatim>\<open>1/M11\<close> are Python
  divisions: they raise ZeroDivisionError on a zero divisor.
\<close>

definition reflectance :: "matrix \<Rightarrow> error + (real \<times> complex)" where
  "reflectance M' =
     (let M21 = item10 M';
          M11 = item00 M'
      in if M11 = 0 then Inl ZeroDivisionError
         else (let r = M21 / M11;
                   r_sq = Re (r * cnj r);
                   R = r_sq
               in Inr (R, r)))"

text \<open>
  The four optional parameters occur only in a commented-out line. The value \<open>T\<close> is
  \<^verbatim>\<open>np.linalg.det(TM) * t_sq\<close>, complex for a complex matrix.
\<close>

definition transmittance ::
  "matrix \<Rightarrow> complex \<Rightarrow> complex \<Rightarrow> real \<Rightarrow> real \<Rightarrow> error + (complex \<times> complex)" where
  "transmittance TM n0 ns theta_0 theta_s =
     (let M11 = item00 TM
      in if M11 = 0 then Inl ZeroDivisionError
         else (let t = 1 / M11;
                   t_sq = Re (t * cnj t);
                   T = linalg_det TM * of_real t_sq
               in Inr (T, t)))"

subsection \<open>The per-wavelength body of the loop in main\<close>

definition um :: real where
  "um = 1 / 10 ^ 6"

definition air_index :: real where
  "air_index = 1"

definition other_index :: real where
  "other_index = 14 / 10"

text \<open>
  The inner loop \<^verbatim>\<open>for layer in layers\<close>. Its state is \<^verbatim>\<open>M_list\<close> and the loop variables
  \<^verbatim>\<open>D, P, Dinv\<close>, which Python keeps after the loop (\<open>None\<close> while they are unbound).
\<close>

fun layer_loop ::
  "real \<Rightarrow> nat \<Rightarrow> Layer list \<Rightarrow> matrix list \<times> (matrix \<times> matrix \<times> matrix) option
     \<Rightarrow> error + (matrix list \<times> (matrix \<times> matrix \<times> matrix) option)" where
  "layer_loop omega' i [] st = Inr st"
| "layer_loop omega' i (layer # rest) (M_list, vars) =
     (if i < length (index layer) \<and> i < length (extinct layer)
      then (let n = of_real (index layer ! i) + \<i> * of_real (extinct layer ! i);
                kx = fst (wavenumber n omega' 0);
                D = fst (dynamical_matrix n 0)
            in case inverse_matrix D of
                 Inl e \<Rightarrow> Inl e
               | Inr Dinv \<Rightarrow>
                   (let P = propagation_matrix layer kx
                    in layer_loop omega' i rest (M_list @ [D, P, Dinv], Some (D, P, Dinv))))
      else Inl IndexError)"

text \<open>
  Lines 296 to 325 of main for the sample \<open>i\<close> with \<^verbatim>\<open>wavelen[i]\<close> equal to \<open>wl\<close>: the
  result is the pair of \<^verbatim>\<open>M_list\<close> as built and \<^verbatim>\<open>M_i\<close> as computed by
  \<^verbatim>\<open>multilayer_matrix([D0inv, D, P, Dinv, Ds])\<close>.
\<close>

definition sample_matrices :: "Layer list \<Rightarrow> real \<Rightarrow> nat \<Rightarrow> error + (matrix list \<times> matrix)" where
  "sample_matrices layers wl i =
     (let lmbda = wl * um
      in case Light_init lmbda of
           Inl e \<Rightarrow> Inl e
         | Inr light \<Rightarrow>
             (let D0 = fst (dynamical_matrix (of_real air_index) 0)
              in case inverse_matrix D0 of
                   Inl e \<Rightarrow> Inl e
                 | Inr D0inv \<Rightarrow>
                     (case layer_loop (omega light) i layers ([D0inv], None) of
                        Inl e \<Rightarrow> Inl e
                      | Inr (M_list, vars) \<Rightarrow>
                          (let Ds = fst (dynamical_matrix (of_real other_index) 0)
                           in case vars of
                                None \<Rightarrow> Inl NameError
                              | Some (D, P, Dinv) \<Rightarrow>
                                  (case multilayer_matrix [D0inv, D, P, Dinv, Ds] of
                                     Inl e \<Rightarrow> Inl e
                                   | Inr M_i \<Rightarrow> Inr (M_list @ [Ds], M_i))))))"

text \<open>Lines 327 to 331: the pair \<open>(trn, ref)\<close> appended to \<open>T\<close> and \<open>R\<close>.\<close>

definition loop_body :: "Layer list \<Rightarrow> real \<Rightarrow> nat \<Rightarrow> error + (real \<times> real)" where
  "loop_body layers wl i =
     (case sample_matrices layers wl i of
        Inl e \<Rightarrow> Inl e
      | Inr (M_list, M_i) \<Rightarrow>
          (case transmittance M_i (of_real air_index) (of_real other_index) 0 0 of
             Inl e \<Rightarrow> Inl e
           | Inr (T, t) \<Rightarrow>
               (let trn = Re T
                in case reflectance M_i of
                     Inl e \<Rightarrow> Inl e
                   | Inr (ref, r) \<Rightarrow> Inr (trn, ref))))"

subsection \<open>Sample stacks\<close>

text \<open>
  Three layers used as concrete inputs, each with one tabulated sample (wavelength 1
  micrometre, extinction 0). At that sample the phase \<open>kx * thickness\<close> of the first is
  \<open>pi / 2\<close>, that of the second is \<open>pi\<close>, and the third has thickness zero.
\<close>

definition quarter_wave_layer :: Layer where
  "quarter_wave_layer =
     \<lparr> material = ''A'', thickness = 125 / 10 ^ 9, wavelength = [1], index = [2], extinct = [0] \<rparr>"

definition half_wave_layer :: Layer where
  "half_wave_layer =
     \<lparr> material = ''B'', thickness = 125 / 10 ^ 9, wavelength = [1], index = [4], extinct = [0] \<rparr>"

definition zero_thickness_layer :: Layer where
  "zero_thickness_layer =
     \<lparr> material = ''Z'', thickness = 0, wavelength = [1], index = [3], extinct = [0] \<rparr>"

section \<open>Auxiliary facts\<close>

subsection \<open>Constants, matrices, layer methods\<close>

lemma c_nonzero: "c \<noteq> 0"
  by (simp add: c_def)

lemma um_nonzero: "um \<noteq> 0"
  by (simp add: um_def)

lemma linalg_det_dot: "linalg_det (dot A B) = linalg_det A * linalg_det B"
  by (simp add: linalg_det_def dot_def algebra_simps)

lemma Re_mult_cnj: "Re (z * cnj z) = (cmod z)\<^sup>2"
  by (simp only: complex_mult_cnj Re_complex_of_real cmod_power2)

lemma wavenumber_normal: "fst (wavenumber n w 0) = n * of_real (w / c)"
  by (simp add: wavenumber_def Let_def)

lemma propagation_matrix_phase:
  "kx * of_real (thickness l) = of_real x \<Longrightarrow>
     propagation_matrix l kx = Matrix (cis (- x)) 0 0 (cis x)"
  by (simp add: propagation_matrix_def Let_def cis_conv_exp)

lemma propagation_matrix_zero_thickness:
  "thickness l = 0 \<Longrightarrow> propagation_matrix l kx = identity"
  by (simp add: propagation_matrix_def identity_def)

lemma inverse_dynamical:
  "n \<noteq> 0 \<Longrightarrow> inverse_matrix (fst (dynamical_matrix n 0))
      = Inr (Matrix (1 / 2) (1 / (2 * n)) (1 / 2) (- (1 / (2 * n))))"
  by (simp add: inverse_matrix_def linalg_inv_def linalg_det_def dynamical_matrix_def Let_def
        field_simps)

lemma inverse_dynamical_zero:
  "inverse_matrix (fst (dynamical_matrix 0 0)) = Inl LinAlgError"
  by (simp add: inverse_matrix_def linalg_inv_def linalg_det_def dynamical_matrix_def Let_def)

subsection \<open>The inner loop\<close>

text \<open>One iteration for a layer whose sample is in range and whose complex index is not 0.\<close>

lemma layer_loop_step:
  assumes "i < length (index l)" "i < length (extinct l)"
    and "n = of_real (index l ! i) + \<i> * of_real (extinct l ! i)" "n \<noteq> 0"
  shows "layer_loop w i (l # rest) (Ms, vars)
     = layer_loop w i rest
         (Ms @ [Matrix 1 1 n (- n), propagation_matrix l (n * of_real (w / c)),
                Matrix (1 / 2) (1 / (2 * n)) (1 / 2) (- (1 / (2 * n)))],
          Some (Matrix 1 1 n (- n), propagation_matrix l (n * of_real (w / c)),
                Matrix (1 / 2) (1 / (2 * n)) (1 / 2) (- (1 / (2 * n)))))"
proof -
  have D: "fst (dynamical_matrix n 0) = Matrix 1 1 n (- n)"
    by (simp add: dynamical_matrix_def)
  have inv: "inverse_matrix (Matrix 1 1 n (- n))
      = Inr (Matrix (1 / 2) (1 / (2 * n)) (1 / 2) (- (1 / (2 * n))))"
    using inverse_dynamical [OF assms(4)] by (simp only: D)
  have "layer_loop w i (l # rest) (Ms, vars)
     = (case inverse_matrix (fst (dynamical_matrix n 0)) of
          Inl e \<Rightarrow> Inl e
        | Inr Dinv \<Rightarrow>
            layer_loop w i rest
              (Ms @ [fst (dynamical_matrix n 0), propagation_matrix l (fst (wavenumber n w 0)), Dinv],
               Some (fst (dynamical_matrix n 0), propagation_matrix l (fst (wavenumber n w 0)), Dinv)))"
    using assms(1,2) by (simp only: layer_loop.simps Let_def assms(3) simp_thms if_True)
  then show ?thesis
    by (simp only: D inv wavenumber_normal sum.case)
qed

text \<open>A successful run over one layer leaves that layer's triple in the loop variables.\<close>

lemma layer_loop_single:
  assumes "layer_loop w i [l] (Ms0, v0) = Inr (Ms, v)"
  shows "i < length (index l) \<and> i < length (extinct l)
    \<and> of_real (index l ! i) + \<i> * of_real (extinct l ! i) \<noteq> (0::complex)
    \<and> v = Some (Matrix 1 1 (of_real (index l ! i) + \<i> * of_real (extinct l ! i))
                    (- (of_real (index l ! i) + \<i> * of_real (extinct l ! i))),
                  propagation_matrix l
                    ((of_real (index l ! i) + \<i> * of_real (extinct l ! i)) * of_real (w / c)),
                  Matrix (1 / 2) (1 / (2 * (of_real (index l ! i) + \<i> * of_real (extinct l ! i))))
                         (1 / 2) (- (1 / (2 * (of_real (index l ! i) + \<i> * of_real (extinct l ! i))))))"
proof -
  define n :: complex where "n = of_real (index l ! i) + \<i> * of_real (extinct l ! i)"
  have rng: "i < length (index l)" "i < length (extinct l)"
    using assms by (auto split: if_splits)
  have nz: "n \<noteq> 0"
  proof
    assume "n = 0"
    then have "layer_loop w i [l] (Ms0, v0) = Inl LinAlgError"
      using rng inverse_dynamical_zero by (simp add: n_def [symmetric])
    with assms show False by simp
  qed
  from layer_loop_step [OF rng n_def nz, of w "[]" Ms0 v0] assms
  have "v = Some (Matrix 1 1 n (- n), propagation_matrix l (n * of_real (w / c)),
                Matrix (1 / 2) (1 / (2 * n)) (1 / 2) (- (1 / (2 * n))))"
    by simp
  with rng nz show ?thesis unfolding n_def by blast
qed

text \<open>What the loop returns is what its last iteration returns.\<close>

lemma layer_loop_snoc:
  "layer_loop w i (ls @ [l]) st = Inr res \<Longrightarrow> \<exists>st'. layer_loop w i [l] st' = Inr res"
proof (induction ls arbitrary: st)
  case Nil
  then show ?case unfolding append_Nil by (rule exI)
next
  case (Cons a ls)
  obtain Ms v where st: "st = (Ms, v)" by (cases st)
  from Cons.prems obtain st' where "layer_loop w i (ls @ [l]) st' = Inr res"
    unfolding st by (auto simp: Let_def split: if_splits sum.splits)
  then show ?case by (rule Cons.IH)
qed

text \<open>The loop succeeds when every layer has the sample and a nonzero complex index.\<close>

lemma layer_loop_total:
  assumes "list_all (\<lambda>l. i < length (index l) \<and> i < length (extinct l)
             \<and> complex_of_real (index l ! i) + \<i> * of_real (extinct l ! i) \<noteq> 0) ls"
  shows "\<exists>Ms' v'. layer_loop w i ls (Ms, v) = Inr (Ms', v') \<and> (v \<noteq> None \<or> ls \<noteq> [] \<longrightarrow> v' \<noteq> None)"
  using assms
proof (induction ls arbitrary: Ms v)
  case Nil
  then show ?case by simp
next
  case (Cons l ls)
  from Cons.prems have hd: "i < length (index l)" "i < length (extinct l)"
    "complex_of_real (index l ! i) + \<i> * of_real (extinct l ! i) \<noteq> 0"
    and tl: "list_all (\<lambda>l. i < length (index l) \<and> i < length (extinct l)
             \<and> complex_of_real (index l ! i) + \<i> * of_real (extinct l ! i) \<noteq> 0) ls"
    by simp_all
  from layer_loop_step [OF hd(1,2) refl hd(3), of w ls Ms v]
  obtain Ms1 t where step: "layer_loop w i (l # ls) (Ms, v) = layer_loop w i ls (Ms1, Some t)"
    by blast
  from Cons.IH [OF tl, of Ms1 "Some t"]
  obtain Ms' v' where "layer_loop w i ls (Ms1, Some t) = Inr (Ms', v')" "v' \<noteq> None"
    by auto
  then show ?case
    unfolding step by blast
qed

subsection \<open>The matrices of one sample\<close>

lemma sample_matrices_unfold:
  assumes "wl \<noteq> 0"
  shows "sample_matrices layers wl i =
    (case layer_loop (2 * pi * c / (wl * um)) i layers ([Matrix (1 / 2) (1 / 2) (1 / 2) (- (1 / 2))], None) of
       Inl e \<Rightarrow> Inl e
     | Inr (Ms, vars) \<Rightarrow>
        (case vars of
           None \<Rightarrow> Inl NameError
         | Some (D, P, Dinv) \<Rightarrow>
             Inr (Ms @ [Matrix 1 1 (7 / 5) (- (7 / 5))],
                  foldl dot (dot (Matrix (1 / 2) (1 / 2) (1 / 2) (- (1 / 2))) D)
                    [P, Dinv, Matrix 1 1 (7 / 5) (- (7 / 5))])))"
proof -
  have L: "Light_init (wl * um) = Inr \<lparr> wavelength_ = wl * um, omega = 2 * pi * c / (wl * um),
      freq = c / (wl * um), k = 2 * pi / (wl * um), energy_J = h * c / (wl * um),
      energy_ev = (h * c / (wl * um)) / eV \<rparr>"
    using assms um_nonzero by (simp add: Light_init_def)
  have D0: "inverse_matrix (fst (dynamical_matrix (of_real air_index) 0))
     = Inr (Matrix (1 / 2) (1 / 2) (1 / 2) (- (1 / 2)))"
    using inverse_dynamical [of 1] by (simp add: air_index_def)
  have Ds: "fst (dynamical_matrix (of_real other_index) 0) = Matrix 1 1 (7 / 5) (- (7 / 5))"
    by (simp add: dynamical_matrix_def other_index_def Let_def)
  show ?thesis
    unfolding sample_matrices_def Let_def L D0 Ds multilayer_matrix_def
    by (simp split: sum.splits option.splits prod.splits)
qed

lemma sample_matrices_unit:
  "sample_matrices layers 1 i =
    (case layer_loop (2 * pi * c / um) i layers ([Matrix (1 / 2) (1 / 2) (1 / 2) (- (1 / 2))], None) of
       Inl e \<Rightarrow> Inl e
     | Inr (Ms, vars) \<Rightarrow>
        (case vars of
           None \<Rightarrow> Inl NameError
         | Some (D, P, Dinv) \<Rightarrow>
             Inr (Ms @ [Matrix 1 1 (7 / 5) (- (7 / 5))],
                  foldl dot (dot (Matrix (1 / 2) (1 / 2) (1 / 2) (- (1 / 2))) D)
                    [P, Dinv, Matrix 1 1 (7 / 5) (- (7 / 5))])))"
  using sample_matrices_unfold [of 1 layers i] by simp

text \<open>
  Whenever the matrices of a sample are computed, \<open>M_i\<close> is the product of the ambient
  inverse, the triple of the last layer alone, and the substrate matrix.
\<close>

lemma sample_matrices_last_layer:
  assumes "sample_matrices layers wl i = Inr (Ms, M)"
  defines "l \<equiv> last layers"
  defines "n \<equiv> complex_of_real (index l ! i) + \<i> * of_real (extinct l ! i)"
  shows "layers \<noteq> [] \<and> wl \<noteq> 0 \<and> i < length (index l) \<and> i < length (extinct l) \<and> n \<noteq> 0
    \<and> M = foldl dot (dot (Matrix (1 / 2) (1 / 2) (1 / 2) (- (1 / 2))) (Matrix 1 1 n (- n)))
             [propagation_matrix l (n * of_real (2 * pi * c / (wl * um) / c)),
              Matrix (1 / 2) (1 / (2 * n)) (1 / 2) (- (1 / (2 * n))),
              Matrix 1 1 (7 / 5) (- (7 / 5))]"
proof -
  have wl: "wl \<noteq> 0"
    using assms(1) by (auto simp: sample_matrices_def Light_init_def Let_def)
  note u = assms(1) [unfolded sample_matrices_unfold [OF wl]]
  from u obtain Ms' D P Dinv where
    loop: "layer_loop (2 * pi * c / (wl * um)) i layers
             ([Matrix (1 / 2) (1 / 2) (1 / 2) (- (1 / 2))], None) = Inr (Ms', Some (D, P, Dinv))"
    and M: "M = foldl dot (dot (Matrix (1 / 2) (1 / 2) (1 / 2) (- (1 / 2))) D)
                  [P, Dinv, Matrix 1 1 (7 / 5) (- (7 / 5))]"
    by (auto split: sum.splits option.splits prod.splits)
  have ne: "layers \<noteq> []"
    using loop by auto
  then have "layers = butlast layers @ [l]"
    by (simp add: l_def)
  with loop obtain st' where "layer_loop (2 * pi * c / (wl * um)) i [l] st' = Inr (Ms', Some (D, P, Dinv))"
    using layer_loop_snoc by metis
  from layer_loop_single [of _ _ _ "fst st'" "snd st'", unfolded prod.collapse, OF this]
  show ?thesis
    using ne wl M unfolding n_def by simp
qed

text \<open>With a single layer, \<open>M_i\<close> is the product of the whole of \<open>M_list\<close>.\<close>

lemma single_layer_composition:
  assumes "sample_matrices [l] wl i = Inr (Ms, M)"
  shows "multilayer_matrix Ms = Inr M"
  using assms
  by (auto simp: sample_matrices_def Let_def multilayer_matrix_def
      split: sum.splits option.splits if_splits)

subsection \<open>Energy balance of a lossless layer\<close>

lemma lossless_entries:
  fixes n x :: real
  assumes "n \<noteq> 0"
  defines "M \<equiv> foldl dot (dot (Matrix (1 / 2) (1 / 2) (1 / 2) (- (1 / 2)))
                               (Matrix 1 1 (of_real n) (- of_real n)))
             [Matrix (cis (- x)) 0 0 (cis x),
              Matrix (1 / 2) (1 / (2 * of_real n)) (1 / 2) (- (1 / (2 * of_real n))),
              Matrix 1 1 (7 / 5) (- (7 / 5))]"
  shows "item00 M = Complex (6 / 5 * cos x) (- ((7 / (5 * n) + n) / 2 * sin x))"
    and "item10 M = Complex (- (1 / 5) * cos x) (- ((7 / (5 * n) - n) / 2 * sin x))"
  using assms(1) unfolding M_def
  by (simp_all add: dot_def complex_eq_iff field_simps)

lemma lossless_det:
  fixes n :: complex
  assumes "n \<noteq> 0"
  shows "linalg_det (foldl dot (dot (Matrix (1 / 2) (1 / 2) (1 / 2) (- (1 / 2))) (Matrix 1 1 n (- n)))
             [Matrix (cis (- x)) 0 0 (cis x),
              Matrix (1 / 2) (1 / (2 * n)) (1 / 2) (- (1 / (2 * n))),
              Matrix 1 1 (7 / 5) (- (7 / 5))]) = 7 / 5"
proof -
  have "cis (- x) * cis x = 1"
    by (simp add: cis_mult)
  then show ?thesis
    using assms by (simp add: linalg_det_dot) (simp add: linalg_det_def field_simps)
qed

lemma lossless_balance:
  fixes n x :: real
  assumes "n \<noteq> 0"
  defines "M \<equiv> foldl dot (dot (Matrix (1 / 2) (1 / 2) (1 / 2) (- (1 / 2)))
                               (Matrix 1 1 (of_real n) (- of_real n)))
             [Matrix (cis (- x)) 0 0 (cis x),
              Matrix (1 / 2) (1 / (2 * of_real n)) (1 / 2) (- (1 / (2 * of_real n))),
              Matrix 1 1 (7 / 5) (- (7 / 5))]"
  shows "(cmod (item00 M))\<^sup>2 = (cmod (item10 M))\<^sup>2 + 7 / 5"
proof -
  have sc: "(sin x)\<^sup>2 = 1 - (cos x)\<^sup>2"
    by (simp add: sin_squared_eq)
  have "(cmod (item00 M))\<^sup>2 - (cmod (item10 M))\<^sup>2
      = ((6 / 5)\<^sup>2 - (1 / 5)\<^sup>2) * (cos x)\<^sup>2
        + (((7 / (5 * n) + n) / 2)\<^sup>2 - ((7 / (5 * n) - n) / 2)\<^sup>2) * (sin x)\<^sup>2"
    unfolding M_def lossless_entries [OF assms(1)] cmod_power2 complex.sel
    by (simp add: power2_eq_square algebra_simps)
  also have "((7 / (5 * n) + n) / 2)\<^sup>2 - ((7 / (5 * n) - n) / 2)\<^sup>2 = 7 / 5"
    using assms(1) by (simp add: power2_eq_square field_simps)
  also have "((6 / 5)\<^sup>2 - (1 / 5)\<^sup>2) * (cos x)\<^sup>2 + 7 / 5 * (sin x)\<^sup>2 = (7 / 5 :: real)"
    unfolding sc by (simp add: power2_eq_square field_simps)
  finally show ?thesis by simp
qed

lemma balance_nonzero:
  fixes a b :: complex
  assumes "(cmod a)\<^sup>2 = (cmod b)\<^sup>2 + 7 / 5"
  shows "a \<noteq> 0"
proof
  assume "a = 0"
  with assms have "(cmod b)\<^sup>2 + 7 / 5 = 0" by simp
  moreover have "0 \<le> (cmod b)\<^sup>2" by simp
  ultimately show False by linarith
qed

text \<open>From the balance of the matrix entries to \<open>R + T = 1\<close> for the extracted values.\<close>

lemma extraction_balance:
  assumes bal: "(cmod (item00 M))\<^sup>2 = (cmod (item10 M))\<^sup>2 + Re (linalg_det M)"
    and nz: "item00 M \<noteq> 0"
    and T: "transmittance M n0 ns t0 ts = Inr (T, t)"
    and R: "reflectance M = Inr (R, r)"
  shows "R + Re T = 1"
proof -
  have cm: "cmod (item00 M) \<noteq> 0" using nz by simp
  have "reflectance M = Inr (Re ((item10 M / item00 M) * cnj (item10 M / item00 M)), item10 M / item00 M)"
    using nz unfolding reflectance_def Let_def by (simp only: if_False)
  with R have "Inr (R, r) = (Inr (Re ((item10 M / item00 M) * cnj (item10 M / item00 M)),
       item10 M / item00 M) :: error + real \<times> complex)"
    by (simp only:)
  then have "R = Re ((item10 M / item00 M) * cnj (item10 M / item00 M))"
    by (simp only: sum.inject prod.inject)
  then have "R = (cmod (item10 M / item00 M))\<^sup>2"
    by (simp only: Re_mult_cnj)
  then have R': "R = (cmod (item10 M))\<^sup>2 / (cmod (item00 M))\<^sup>2"
    by (simp add: norm_divide power_divide)
  have "transmittance M n0 ns t0 ts
      = Inr (linalg_det M * of_real (Re ((1 / item00 M) * cnj (1 / item00 M))), 1 / item00 M)"
    using nz unfolding transmittance_def Let_def by (simp only: if_False)
  with T have "Inr (T, t) = (Inr (linalg_det M * of_real (Re ((1 / item00 M) * cnj (1 / item00 M))),
       1 / item00 M) :: error + complex \<times> complex)"
    by (simp only:)
  then have "T = linalg_det M * of_real (Re ((1 / item00 M) * cnj (1 / item00 M)))"
    by (simp only: sum.inject prod.inject)
  then have "T = linalg_det M * of_real ((cmod (1 / item00 M))\<^sup>2)"
    by (simp only: Re_mult_cnj)
  then have "Re T = Re (linalg_det M) * (cmod (1 / item00 M))\<^sup>2"
    by simp
  then have T': "Re T = Re (linalg_det M) / (cmod (item00 M))\<^sup>2"
    by (simp add: norm_divide power_divide)
  have "R + Re T = ((cmod (item10 M))\<^sup>2 + Re (linalg_det M)) / (cmod (item00 M))\<^sup>2"
    unfolding R' T' by (simp add: add_divide_distrib)
  also have "\<dots> = (cmod (item00 M))\<^sup>2 / (cmod (item00 M))\<^sup>2"
    by (simp only: bal)
  also have "\<dots> = 1"
    using cm by simp
  finally show ?thesis .
qed

lemma lossless_sample:
  assumes loss: "list_all (\<lambda>l. i < length (extinct l) \<and> extinct l ! i = 0) layers"
    and sm: "sample_matrices layers wl i = Inr (Ms, M)"
  shows "(cmod (item00 M))\<^sup>2 = (cmod (item10 M))\<^sup>2 + Re (linalg_det M) \<and> item00 M \<noteq> 0"
proof -
  define l where "l = last layers"
  define n where "n = index l ! i"
  define x where "x = n * (2 * pi * c / (wl * um) / c) * thickness l"
  note s = sample_matrices_last_layer [OF sm, folded l_def]
  from s have ne: "layers \<noteq> []" by blast
  then have "l \<in> set layers" by (simp add: l_def)
  with loss have ext: "extinct l ! i = 0" by (simp add: list_all_iff)
  have nc: "complex_of_real (index l ! i) + \<i> * of_real (extinct l ! i) = of_real n"
    by (simp add: ext n_def)
  from s have nz: "n \<noteq> 0" unfolding nc by simp
  have P: "propagation_matrix l (of_real n * of_real (2 * pi * c / (wl * um) / c))
      = Matrix (cis (- x)) 0 0 (cis x)"
    by (rule propagation_matrix_phase) (simp add: x_def)
  from s have M: "M = foldl dot (dot (Matrix (1 / 2) (1 / 2) (1 / 2) (- (1 / 2)))
                               (Matrix 1 1 (of_real n) (- of_real n)))
             [Matrix (cis (- x)) 0 0 (cis x),
              Matrix (1 / 2) (1 / (2 * of_real n)) (1 / 2) (- (1 / (2 * of_real n))),
              Matrix 1 1 (7 / 5) (- (7 / 5))]"
    unfolding nc P by blast
  have det: "linalg_det M = 7 / 5"
    unfolding M using nz by (intro lossless_det) simp
  have bal: "(cmod (item00 M))\<^sup>2 = (cmod (item10 M))\<^sup>2 + 7 / 5"
    unfolding M by (rule lossless_balance [OF nz])
  from bal balance_nonzero [OF bal] show ?thesis
    by (simp add: det)
qed

subsection \<open>The sample stacks, evaluated\<close>

lemma sample_layer_fields:
  "index quarter_wave_layer = [2]" "extinct quarter_wave_layer = [0]"
  "index half_wave_layer = [4]" "extinct half_wave_layer = [0]"
  "index zero_thickness_layer = [3]" "extinct zero_thickness_layer = [0]"
  by (simp_all add: quarter_wave_layer_def half_wave_layer_def zero_thickness_layer_def)

lemma quarter_wave_propagation:
  "propagation_matrix quarter_wave_layer (2 * of_real (2 * pi * c / um / c)) = Matrix (- \<i>) 0 0 \<i>"
proof -
  have "2 * of_real (2 * pi * c / um / c) * of_real (thickness quarter_wave_layer)
      = complex_of_real (pi / 2)"
    by (simp add: quarter_wave_layer_def um_def c_nonzero)
  from propagation_matrix_phase [OF this] show ?thesis
    by (simp add: cis_cnj [symmetric])
qed

lemma half_wave_propagation:
  "propagation_matrix half_wave_layer (4 * of_real (2 * pi * c / um / c)) = Matrix (- 1) 0 0 (- 1)"
proof -
  have "4 * of_real (2 * pi * c / um / c) * of_real (thickness half_wave_layer)
      = complex_of_real pi"
    by (simp add: half_wave_layer_def um_def c_nonzero)
  from propagation_matrix_phase [OF this] show ?thesis
    by (simp add: cis_cnj [symmetric])
qed

lemma quarter_wave_step:
  "layer_loop (2 * pi * c / um) 0 (quarter_wave_layer # rest) (Ms, v)
    = layer_loop (2 * pi * c / um) 0 rest
       (Ms @ [Matrix 1 1 2 (- 2), Matrix (- \<i>) 0 0 \<i>, Matrix (1 / 2) (1 / 4) (1 / 2) (- (1 / 4))],
        Some (Matrix 1 1 2 (- 2), Matrix (- \<i>) 0 0 \<i>, Matrix (1 / 2) (1 / 4) (1 / 2) (- (1 / 4))))"
proof -
  have p: "0 < length (index quarter_wave_layer)" "0 < length (extinct quarter_wave_layer)"
    "(2::complex) = of_real (index quarter_wave_layer ! 0) + \<i> * of_real (extinct quarter_wave_layer ! 0)"
    "(2::complex) \<noteq> 0"
    by (simp_all add: sample_layer_fields)
  have q: "(2::complex) * 2 = 4" by simp
  show ?thesis
    by (simp only: layer_loop_step [OF p] quarter_wave_propagation q)
qed

lemma half_wave_step:
  "layer_loop (2 * pi * c / um) 0 (half_wave_layer # rest) (Ms, v)
    = layer_loop (2 * pi * c / um) 0 rest
       (Ms @ [Matrix 1 1 4 (- 4), Matrix (- 1) 0 0 (- 1), Matrix (1 / 2) (1 / 8) (1 / 2) (- (1 / 8))],
        Some (Matrix 1 1 4 (- 4), Matrix (- 1) 0 0 (- 1), Matrix (1 / 2) (1 / 8) (1 / 2) (- (1 / 8))))"
proof -
  have p: "0 < length (index half_wave_layer)" "0 < length (extinct half_wave_layer)"
    "(4::complex) = of_real (index half_wave_layer ! 0) + \<i> * of_real (extinct half_wave_layer ! 0)"
    "(4::complex) \<noteq> 0"
    by (simp_all add: sample_layer_fields)
  have q: "(2::complex) * 4 = 8" by simp
  show ?thesis
    by (simp only: layer_loop_step [OF p] half_wave_propagation q)
qed

lemma zero_thickness_step:
  "layer_loop w 0 (zero_thickness_layer # rest) (Ms, v)
    = layer_loop w 0 rest
       (Ms @ [Matrix 1 1 3 (- 3), Matrix 1 0 0 1, Matrix (1 / 2) (1 / 6) (1 / 2) (- (1 / 6))],
        Some (Matrix 1 1 3 (- 3), Matrix 1 0 0 1, Matrix (1 / 2) (1 / 6) (1 / 2) (- (1 / 6))))"
proof -
  have p: "0 < length (index zero_thickness_layer)" "0 < length (extinct zero_thickness_layer)"
    "(3::complex) = of_real (index zero_thickness_layer ! 0) + \<i> * of_real (extinct zero_thickness_layer ! 0)"
    "(3::complex) \<noteq> 0"
    by (simp_all add: sample_layer_fields)
  have q: "(2::complex) * 3 = 6" by simp
  have z: "propagation_matrix zero_thickness_layer kx = Matrix 1 0 0 1" for kx
    using propagation_matrix_zero_thickness [of zero_thickness_layer kx]
    by (simp add: zero_thickness_layer_def identity_def)
  show ?thesis
    by (simp only: layer_loop_step [OF p] z q)
qed

lemma sample_quarter:
  "sample_matrices [quarter_wave_layer] 1 0
  = Inr ([Matrix (1 / 2) (1 / 2) (1 / 2) (- (1 / 2)),
          Matrix 1 1 2 (- 2), Matrix (- \<i>) 0 0 \<i>, Matrix (1 / 2) (1 / 4) (1 / 2) (- (1 / 4)),
          Matrix 1 1 (7 / 5) (- (7 / 5))],
         Matrix (- (27 * \<i> / 20)) (- (13 * \<i> / 20)) (13 * \<i> / 20) (27 * \<i> / 20))"
  unfolding sample_matrices_unit quarter_wave_step layer_loop.simps(1) append.simps
    sum.case prod.case option.case
  by (simp add: dot_def complex_eq_iff)

lemma sample_quarter_zero:
  "sample_matrices [quarter_wave_layer, zero_thickness_layer] 1 0
  = Inr ([Matrix (1 / 2) (1 / 2) (1 / 2) (- (1 / 2)),
          Matrix 1 1 2 (- 2), Matrix (- \<i>) 0 0 \<i>, Matrix (1 / 2) (1 / 4) (1 / 2) (- (1 / 4)),
          Matrix 1 1 3 (- 3), Matrix 1 0 0 1, Matrix (1 / 2) (1 / 6) (1 / 2) (- (1 / 6)),
          Matrix 1 1 (7 / 5) (- (7 / 5))],
         Matrix (6 / 5) (- (1 / 5)) (- (1 / 5)) (6 / 5))"
  unfolding sample_matrices_unit quarter_wave_step zero_thickness_step layer_loop.simps(1)
    append.simps sum.case prod.case option.case
  by (simp add: dot_def complex_eq_iff)

lemma sample_quarter_half:
  "sample_matrices [quarter_wave_layer, half_wave_layer] 1 0
  = Inr ([Matrix (1 / 2) (1 / 2) (1 / 2) (- (1 / 2)),
          Matrix 1 1 2 (- 2), Matrix (- \<i>) 0 0 \<i>, Matrix (1 / 2) (1 / 4) (1 / 2) (- (1 / 4)),
          Matrix 1 1 4 (- 4), Matrix (- 1) 0 0 (- 1), Matrix (1 / 2) (1 / 8) (1 / 2) (- (1 / 8)),
          Matrix 1 1 (7 / 5) (- (7 / 5))],
         Matrix (- (6 / 5)) (1 / 5) (1 / 5) (- (6 / 5)))"
  unfolding sample_matrices_unit quarter_wave_step half_wave_step layer_loop.simps(1)
    append.simps sum.case prod.case option.case
  by (simp add: dot_def complex_eq_iff)

lemma product_quarter_half:
  "multilayer_matrix [Matrix (1 / 2) (1 / 2) (1 / 2) (- (1 / 2)),
          Matrix 1 1 2 (- 2), Matrix (- \<i>) 0 0 \<i>, Matrix (1 / 2) (1 / 4) (1 / 2) (- (1 / 4)),
          Matrix 1 1 4 (- 4), Matrix (- 1) 0 0 (- 1), Matrix (1 / 2) (1 / 8) (1 / 2) (- (1 / 8)),
          Matrix 1 1 (7 / 5) (- (7 / 5))]
   = Inr (Matrix (27 * \<i> / 20) (13 * \<i> / 20) (- (13 * \<i> / 20)) (- (27 * \<i> / 20)))"
  by (simp add: multilayer_matrix_def dot_def complex_eq_iff)

lemma reflectance_quarter_half:
  "reflectance (Matrix (- (6 / 5)) (1 / 5) (1 / 5) (- (6 / 5))) = Inr (1 / 36, - (1 / 6))"
  "reflectance (Matrix (27 * \<i> / 20) (13 * \<i> / 20) (- (13 * \<i> / 20)) (- (27 * \<i> / 20)))
     = Inr (169 / 729, - (13 / 27))"
  by (simp_all add: reflectance_def Let_def complex_eq_iff)

lemma loop_body_quarter:
  "loop_body [quarter_wave_layer] 1 0 = Inr (560 / 729, 169 / 729)"
  unfolding loop_body_def sample_quarter sum.case prod.case
  by (simp add: transmittance_def reflectance_def linalg_det_def Let_def complex_eq_iff)

lemma loop_body_quarter_zero:
  "loop_body [quarter_wave_layer, zero_thickness_layer] 1 0 = Inr (35 / 36, 1 / 36)"
  unfolding loop_body_def sample_quarter_zero sum.case prod.case
  by (simp add: transmittance_def reflectance_def linalg_det_def Let_def complex_eq_iff)

subsection \<open>Energy balance in exact arithmetic\<close>

text \<open>
  With real and complex numbers in place of doubles, the pair that the loop body returns
  for a stack without extinction sums to exactly 1, and a pair is returned whenever the
  stack is not empty, the wavelength is not zero and every index is not zero. This is a
  fact of the algebra only. It says nothing about the values the program computes in
  IEEE double arithmetic, where a product such as \<^verbatim>\<open>wavelen[i] * um\<close> can underflow to
  zero and a quotient can overflow to infinity.
\<close>

lemma exact_lossless_balance:
  assumes "list_all (\<lambda>l. i < length (extinct l) \<and> extinct l ! i = 0) layers"
  shows "(\<forall>trn ref. loop_body layers wl i = Inr (trn, ref) \<longrightarrow> ref + trn = 1)
     \<and> (layers \<noteq> [] \<and> wl \<noteq> 0 \<and> list_all (\<lambda>l. i < length (index l) \<and> index l ! i \<noteq> 0) layers
          \<longrightarrow> (\<exists>trn ref. loop_body layers wl i = Inr (trn, ref)))"
proof (intro conjI allI impI)
  fix trn ref
  assume "loop_body layers wl i = Inr (trn, ref)"
  then obtain Ms M T t r where sm: "sample_matrices layers wl i = Inr (Ms, M)"
    and T: "transmittance M (of_real air_index) (of_real other_index) 0 0 = Inr (T, t)"
    and R: "reflectance M = Inr (ref, r)" and trn: "trn = Re T"
    by (auto simp: loop_body_def Let_def split: sum.splits prod.splits)
  from lossless_sample [OF assms sm] extraction_balance [OF _ _ T R]
  show "ref + trn = 1" unfolding trn by blast
next
  assume a: "layers \<noteq> [] \<and> wl \<noteq> 0
     \<and> list_all (\<lambda>l. i < length (index l) \<and> index l ! i \<noteq> 0) layers"
  have "list_all (\<lambda>l. i < length (index l) \<and> i < length (extinct l)
             \<and> complex_of_real (index l ! i) + \<i> * of_real (extinct l ! i) \<noteq> 0) layers"
    using a assms by (auto simp: list_all_iff complex_eq_iff)
  from layer_loop_total [OF this, of "2 * pi * c / (wl * um)"
      "[Matrix (1 / 2) (1 / 2) (1 / 2) (- (1 / 2))]" None] a
  obtain Ms' D P Dinv where "layer_loop (2 * pi * c / (wl * um)) i layers
             ([Matrix (1 / 2) (1 / 2) (1 / 2) (- (1 / 2))], None) = Inr (Ms', Some (D, P, Dinv))"
    by auto
  then obtain Ms M where sm: "sample_matrices layers wl i = Inr (Ms, M)"
    using a by (simp add: sample_matrices_unfold)
  from lossless_sample [OF assms sm] have nz: "item00 M \<noteq> 0" by blast
  then show "\<exists>trn ref. loop_body layers wl i = Inr (trn, ref)"
    by (simp add: loop_body_def sm transmittance_def reflectance_def Let_def)
qed

lemma exact_lossless_balance_example:
  "list_all (\<lambda>l. 0 < length (extinct l) \<and> extinct l ! 0 = 0) [quarter_wave_layer]
   \<and> loop_body [quarter_wave_layer] 1 0 = Inr (560 / 729, 169 / 729)
   \<and> 169 / 729 + 560 / 729 = (1 :: real)
   \<and> (\<exists>trn ref. loop_body [quarter_wave_layer] 1 0 = Inr (trn, ref))"
proof -
  have h: "list_all (\<lambda>l. 0 < length (extinct l) \<and> extinct l ! 0 = 0) [quarter_wave_layer]"
    by (simp add: sample_layer_fields)
  have g: "[quarter_wave_layer] \<noteq> [] \<and> (1::real) \<noteq> 0
     \<and> list_all (\<lambda>l. 0 < length (index l) \<and> index l ! 0 \<noteq> 0) [quarter_wave_layer]"
    by (simp add: sample_layer_fields)
  from exact_lossless_balance [OF h, of 1] loop_body_quarter g h show ?thesis
    by blast
qed

section \<open>The claims\<close>

subsection \<open>C1: which matrices are composed\<close>

text \<open>
  C1. The claim: for every stack and every wavelength sample, the composed transfer matrix
  is the left-to-right product of the whole list (ambient inverse, then the triple
  \<open>D, P, Dinv\<close> of every interior layer in stack order, then the substrate matrix).

  The loop builds that list in \<^verbatim>\<open>M_list\<close> (commented in the source as the list of matrices
  to be multiplied), but line 325 multiplies \<^verbatim>\<open>[D0inv, D, P, Dinv, Ds]\<close>, where
  \<open>D, P, Dinv\<close> are the loop variables left by the last layer; the call on \<^verbatim>\<open>M_list\<close> is
  commented out. On the two-layer stack below the code's matrix and the product of the
  list it built differ, and so do the reflectances read from them
  (\<open>1/36\<close> against \<open>169/729\<close>): the first layer contributes nothing.
\<close>

theorem main_composes_last_layer_only:
  "sample_matrices [quarter_wave_layer, half_wave_layer] 1 0
     = Inr ([Matrix (1 / 2) (1 / 2) (1 / 2) (- (1 / 2)),
             Matrix 1 1 2 (- 2), Matrix (- \<i>) 0 0 \<i>, Matrix (1 / 2) (1 / 4) (1 / 2) (- (1 / 4)),
             Matrix 1 1 4 (- 4), Matrix (- 1) 0 0 (- 1), Matrix (1 / 2) (1 / 8) (1 / 2) (- (1 / 8)),
             Matrix 1 1 (7 / 5) (- (7 / 5))],
            Matrix (- (6 / 5)) (1 / 5) (1 / 5) (- (6 / 5)))
   \<and> multilayer_matrix [Matrix (1 / 2) (1 / 2) (1 / 2) (- (1 / 2)),
             Matrix 1 1 2 (- 2), Matrix (- \<i>) 0 0 \<i>, Matrix (1 / 2) (1 / 4) (1 / 2) (- (1 / 4)),
             Matrix 1 1 4 (- 4), Matrix (- 1) 0 0 (- 1), Matrix (1 / 2) (1 / 8) (1 / 2) (- (1 / 8)),
             Matrix 1 1 (7 / 5) (- (7 / 5))]
     = Inr (Matrix (27 * \<i> / 20) (13 * \<i> / 20) (- (13 * \<i> / 20)) (- (27 * \<i> / 20)))
   \<and> Matrix (- (6 / 5)) (1 / 5) (1 / 5) (- (6 / 5))
     \<noteq> Matrix (27 * \<i> / 20) (13 * \<i> / 20) (- (13 * \<i> / 20)) (- (27 * \<i> / 20))
   \<and> reflectance (Matrix (- (6 / 5)) (1 / 5) (1 / 5) (- (6 / 5))) = Inr (1 / 36, - (1 / 6))
   \<and> reflectance (Matrix (27 * \<i> / 20) (13 * \<i> / 20) (- (13 * \<i> / 20)) (- (27 * \<i> / 20)))
     = Inr (169 / 729, - (13 / 27))"
proof -
  have "Matrix (- (6 / 5)) (1 / 5) (1 / 5) (- (6 / 5))
     \<noteq> Matrix (27 * \<i> / 20) (13 * \<i> / 20) (- (13 * \<i> / 20)) (- (27 * \<i> / 20))"
    by (simp add: complex_eq_iff)
  with sample_quarter_half product_quarter_half reflectance_quarter_half
  show ?thesis by (intro conjI)
qed

subsection \<open>C2: the tolerance on R + T\<close>

text \<open>
  C2 bounds by \<open>1e-9\<close> the distance from 1 of the sum \<open>R + T\<close> that the program computes
  for a lossless stack. The bound is a statement about the rounding, overflow and
  underflow of IEEE double arithmetic. The numbers of this embedding are exact reals, in
  which no rounding occurs, so the claim has no rendering here that would say what it
  says of the program; the exact identity proved above (\<open>exact_lossless_balance\<close>) is
  not that claim.
\<close>

subsection \<open>C3: the value of transmittance\<close>

text \<open>
  C3 as stated: for \<open>M[0,0] \<noteq> 0\<close>, transmittance returns \<open>(T, t)\<close> with \<open>t = 1 / M[0,0]\<close> and
  \<open>T = Re(det M) * Re(t * conj t)\<close>, a real number. The code returns
  \<open>T = det M * Re(t * conj t)\<close> without taking a real part, so \<open>T\<close> is complex: for the
  matrix with rows \<open>(1, 0)\<close> and \<open>(0, \<i>)\<close> it is \<open>\<i>\<close>, while the claimed value is \<open>0\<close>.
\<close>

theorem transmittance_T_not_real_counterexample:
  "transmittance (Matrix 1 0 0 \<i>) 0 0 0 0 = Inr (\<i>, 1)
   \<and> \<i> \<noteq> of_real (Re (linalg_det (Matrix 1 0 0 \<i>)) * Re ((1 / 1) * cnj (1 / 1)))"
  by (simp add: transmittance_def Let_def linalg_det_def complex_eq_iff)

text \<open>
  C3 as amended: for \<open>M[0,0] \<noteq> 0\<close>, transmittance returns \<open>(T, t)\<close> with \<open>t = 1 / M[0,0]\<close> and
  \<open>T = det M * Re(t * conj t)\<close>, a complex number; its real part, which is what main keeps
  (\<^verbatim>\<open>[0].real\<close>), is \<open>Re(det M) * Re(t * conj t)\<close>.
\<close>

theorem transmittance_value:
  "item00 M \<noteq> 0 \<Longrightarrow>
     transmittance M n0 ns theta_0 theta_s
       = Inr (linalg_det M * of_real (Re ((1 / item00 M) * cnj (1 / item00 M))), 1 / item00 M)
     \<and> Re (linalg_det M * of_real (Re ((1 / item00 M) * cnj (1 / item00 M))))
         = Re (linalg_det M) * Re ((1 / item00 M) * cnj (1 / item00 M))"
proof
  assume nz: "item00 M \<noteq> 0"
  show "transmittance M n0 ns theta_0 theta_s
       = Inr (linalg_det M * of_real (Re ((1 / item00 M) * cnj (1 / item00 M))), 1 / item00 M)"
    unfolding transmittance_def Let_def using nz by (simp only: if_False)
  show "Re (linalg_det M * of_real (Re ((1 / item00 M) * cnj (1 / item00 M))))
         = Re (linalg_det M) * Re ((1 / item00 M) * cnj (1 / item00 M))"
    by (simp only: Re_complex_of_real Im_complex_of_real times_complex.sel mult_zero_right diff_zero)
qed

theorem transmittance_value_witness:
  "item00 (Matrix 2 0 0 \<i>) \<noteq> 0 \<and> transmittance (Matrix 2 0 0 \<i>) 0 0 0 0 = Inr (\<i> / 2, 1 / 2)"
  using transmittance_value [of "Matrix 2 0 0 \<i>" 0 0 0 0]
  by (simp add: linalg_det_def complex_eq_iff)

subsection \<open>C4: a zero leading element\<close>

text \<open>
  C4. For every matrix with \<open>M[0,0] = 0\<close>, reflectance and transmittance both fail with a
  division-by-zero error (Python's ZeroDivisionError, raised by the scalar divisions);
  neither returns a value.
\<close>

theorem zero_leading_element_raises:
  "item00 M = 0 \<Longrightarrow>
     reflectance M = Inl ZeroDivisionError
     \<and> transmittance M n0 ns theta_0 theta_s = Inl ZeroDivisionError"
  by (simp add: reflectance_def transmittance_def Let_def)

theorem zero_leading_element_raises_witness:
  "item00 (Matrix 0 1 1 0) = 0
   \<and> reflectance (Matrix 0 1 1 0) = Inl ZeroDivisionError
   \<and> transmittance (Matrix 0 1 1 0) 1 1 0 0 = Inl ZeroDivisionError"
  using zero_leading_element_raises [of "Matrix 0 1 1 0" 1 1 0 0] by simp

subsection \<open>C5: constructing Light\<close>

text \<open>
  C5 as stated: construction fails with an invalid-input error whenever the wavelength is
  at most zero. The constructor checks nothing: at wavelength \<open>-1\<close> it succeeds, with
  negative frequency, wavenumber and energy.
\<close>

theorem Light_negative_wavelength_counterexample:
  "Light_init (- 1) = Inr \<lparr> wavelength_ = - 1, omega = - (2 * pi * c), freq = - c,
      k = - (2 * pi), energy_J = - (h * c), energy_ev = - (h * c) / eV \<rparr>"
  by (simp add: Light_init_def)

text \<open>
  C5 as amended: construction fails, with a division-by-zero error, when the wavelength is
  zero; for every other wavelength, negative as well as positive, it succeeds. (The model
  is a pure function: there is no side effect to speak of.)
\<close>

theorem Light_init_fails_only_at_zero:
  "(wl = 0 \<longrightarrow> Light_init wl = Inl ZeroDivisionError)
   \<and> (wl \<noteq> 0 \<longrightarrow> (\<exists>light. Light_init wl = Inr light))"
  by (simp add: Light_init_def)

theorem Light_init_fails_only_at_zero_witness:
  "Light_init 0 = Inl ZeroDivisionError \<and> (\<exists>light. Light_init 5 = Inr light)
   \<and> (\<exists>light. Light_init (- 5) = Inr light)"
  using Light_init_fails_only_at_zero [of 0] Light_init_fails_only_at_zero [of 5]
    Light_init_fails_only_at_zero [of "- 5"]
  by simp

subsection \<open>C6: the unused parameters of transmittance\<close>

text \<open>
  C6. The result of transmittance does not depend on \<open>n0\<close>, \<open>ns\<close>, \<open>theta_0\<close>, \<open>theta_s\<close>:
  any two choices of the four give the same result on the same matrix.
\<close>

theorem transmittance_ignores_optional_parameters:
  "transmittance TM n0 ns theta_0 theta_s = transmittance TM n0' ns' theta_0' theta_s'"
  by (simp add: transmittance_def)

subsection \<open>C7: the value of reflectance\<close>

text \<open>
  C7. For every matrix with \<open>M[0,0] \<noteq> 0\<close>, reflectance returns \<open>(R, r)\<close> with
  \<open>r = M[1,0] / M[0,0]\<close> and \<open>R = Re(r * conj r)\<close>.
\<close>

theorem reflectance_value:
  "item00 M \<noteq> 0 \<Longrightarrow>
     reflectance M = Inr (Re ((item10 M / item00 M) * cnj (item10 M / item00 M)),
                          item10 M / item00 M)"
  unfolding reflectance_def Let_def by (simp only: if_False)

theorem reflectance_value_witness:
  "item00 (Matrix 2 0 \<i> 1) \<noteq> 0 \<and> reflectance (Matrix 2 0 \<i> 1) = Inr (1 / 4, \<i> / 2)"
  using reflectance_value [of "Matrix 2 0 \<i> 1"]
  by (simp add: complex_eq_iff)

subsection \<open>C8: the fields of Light\<close>

text \<open>
  C8. For every positive wavelength the constructed object has angular frequency
  \<open>2 pi c / wavelength\<close>, frequency \<open>c / wavelength\<close>, wavenumber \<open>2 pi / wavelength\<close>, energy in
  joules \<open>h c / wavelength\<close>, and energy in eV equal to the joule energy divided by the
  elementary charge.
\<close>

theorem Light_init_fields:
  "0 < wl \<Longrightarrow>
     \<exists>light. Light_init wl = Inr light
       \<and> omega light = 2 * pi * c / wl
       \<and> freq light = c / wl
       \<and> k light = 2 * pi / wl
       \<and> energy_J light = h * c / wl
       \<and> energy_ev light = energy_J light / eV"
  by (simp add: Light_init_def)

theorem Light_init_fields_witness:
  "(0::real) < 2 \<and> (\<exists>light. Light_init 2 = Inr light
       \<and> omega light = pi * c
       \<and> freq light = c / 2
       \<and> k light = pi
       \<and> energy_J light = h * c / 2
       \<and> energy_ev light = energy_J light / eV)"
  using Light_init_fields [of 2] by simp

subsection \<open>C9: a layer of thickness zero\<close>

text \<open>
  C9. The claim: the propagation matrix of a layer of thickness zero is the identity, and
  removing such an interior layer leaves the computed \<open>R\<close> and \<open>T\<close> unchanged. The first
  half holds (\<open>propagation_matrix_zero_thickness\<close>). The second fails on the code, by the
  defect shown under C1: only the last layer reaches the composed matrix. With the
  zero-thickness layer last, the stack below gives \<open>(T, R) = (35/36, 1/36)\<close>; with that layer
  removed the remaining layer is composed instead and the result is \<open>(560/729, 169/729)\<close>.
\<close>

theorem zero_thickness_removal_changes_spectrum:
  "thickness zero_thickness_layer = 0
   \<and> loop_body [quarter_wave_layer, zero_thickness_layer] 1 0 = Inr (35 / 36, 1 / 36)
   \<and> loop_body [quarter_wave_layer] 1 0 = Inr (560 / 729, 169 / 729)"
  using loop_body_quarter_zero loop_body_quarter
  by (simp add: zero_thickness_layer_def)

subsection \<open>C10: the dynamical matrices at normal incidence\<close>

text \<open>
  C10. At \<open>theta = 0\<close> the s-wave and p-wave matrices returned by dynamical\_matrix are both
  the matrix with rows \<open>(1, 1)\<close> and \<open>(n, -n)\<close>, for every complex index \<open>n\<close>.
\<close>

theorem dynamical_matrix_normal_incidence:
  "dynamical_matrix n 0 = (Matrix 1 1 n (- n), Matrix 1 1 n (- n))"
  by (simp add: dynamical_matrix_def)

end
